theory Spec2Isabelle
  imports Main
begin

section \<open>Values, errors and the parsed document\<close>

text \<open>
  The module \<^verbatim>\<open>papis/downloaders/base.py\<close> is embedded function by function.
  Python strings are modelled as \<^typ>\<open>string\<close> restricted to ASCII; a raised exception is
  the \<open>Inl\<close> branch of a sum.
\<close>

datatype error =
    NotImplementedError
  | AssertionError
  | TypeError
  | UnboundLocalError
  | OtherError string

text \<open>An entry of an author's \<^verbatim>\<open>affiliation\<close> list: \<^verbatim>\<open>dict(name=...)\<close>, where the
  value is the \<^verbatim>\<open>content\<close> attribute of the institution element (\<^verbatim>\<open>None\<close> when absent).\<close>

record affiliation_entry =
  name :: "string option"

text \<open>\<^verbatim>\<open>dict(given=..., family=..., affiliation=...)\<close>.\<close>

record author =
  given :: string
  family :: string
  affiliation :: "affiliation_entry list"

text \<open>The values stored in a data dictionary.\<close>

datatype pyval = PNone | PStr string | PAuthorList "author list"

type_synonym pydict = "string \<rightharpoonup> pyval"

text \<open>
  An element of the parsed HTML document: its tag name and its attribute dictionary
  (\<^verbatim>\<open>Tag.attrs\<close>). The document is the sequence of its elements in document order, which
  is the order in which \<^verbatim>\<open>find_all\<close> returns them.
\<close>

record tag =
  tname :: string
  attrs :: "string \<rightharpoonup> string"

type_synonym soup = "tag list"

text \<open>\<^verbatim>\<open>soup.find_all(name=nm, attrs=at)\<close>: the elements named \<open>nm\<close> whose attributes
  have the values listed in \<open>at\<close>.\<close>

definition find_all :: "string \<Rightarrow> (string \<times> string) list \<Rightarrow> soup \<Rightarrow> tag list" where
  "find_all nm at sp =
     filter (\<lambda>t. tname t = nm \<and> list_all (\<lambda>(k, v). attrs t k = Some v) at) sp"

section \<open>String helpers of the Python runtime\<close>

text \<open>\<^verbatim>\<open>str.lower()\<close> on ASCII text.\<close>

definition lower_char :: "char \<Rightarrow> char" where
  "lower_char c =
     (case map_of (zip ''ABCDEFGHIJKLMNOPQRSTUVWXYZ'' ''abcdefghijklmnopqrstuvwxyz'') c of
        None \<Rightarrow> c
      | Some l \<Rightarrow> l)"

definition lower :: "string \<Rightarrow> string" where
  "lower s = map lower_char s"

text \<open>The ASCII characters matched by \<^verbatim>\<open>\s\<close>: 9 to 13, 28 to 32.\<close>

definition is_space :: "char \<Rightarrow> bool" where
  "is_space c =
     (c \<in> set [CHR 0x09, CHR 0x0A, CHR 0x0B, CHR 0x0C, CHR 0x0D,
                CHR 0x1C, CHR 0x1D, CHR 0x1E, CHR 0x1F, CHR 0x20])"

text \<open>
  \<^verbatim>\<open>re.split('\s+', s)\<close>: the pieces of \<open>s\<close> between maximal runs of whitespace. A run
  at either end of \<open>s\<close> leaves an empty piece there; the result is never empty.
\<close>

fun re_split_ws :: "string \<Rightarrow> string list" where
  "re_split_ws [] = [[]]"
| "re_split_ws (c # cs) =
     (if is_space c then
        (if cs \<noteq> [] \<and> is_space (hd cs) then re_split_ws cs else [] # re_split_ws cs)
      else
        (case re_split_ws cs of
           [] \<Rightarrow> [[c]]
         | t # ts \<Rightarrow> (c # t) # ts))"

text \<open>\<^verbatim>\<open>' '.join(xs)\<close>.\<close>

fun join_space :: "string list \<Rightarrow> string" where
  "join_space [] = []"
| "join_space [x] = x"
| "join_space (x # y # ys) = x @ CHR '' '' # join_space (y # ys)"

section \<open>The metadata extractor\<close>

text \<open>The module-level table \<^verbatim>\<open>meta_equivalences\<close>.\<close>

definition meta_equivalences_list :: "(string \<times> string) list" where
  "meta_equivalences_list =
   [(''og:type'', ''type''),
    (''og:title'', ''title''),
    (''og:url'', ''url''),
    (''description'', ''abstract''),
    (''citation_doi'', ''doi''),
    (''citation_firstpage'', ''firstpage''),
    (''citation_lastpage'', ''lastpage''),
    (''citation_fulltext_html_url'', ''url''),
    (''citation_pdf_url'', ''pdf_url''),
    (''citation_issn'', ''issn''),
    (''citation_issue'', ''issue''),
    (''citation_journal_abbrev'', ''journal_abbrev''),
    (''citation_journal_title'', ''journal''),
    (''citation_language'', ''language''),
    (''citation_online_date'', ''online_date''),
    (''citation_publication_date'', ''publication_date''),
    (''citation_publisher'', ''publisher''),
    (''citation_title'', ''title''),
    (''citation_volume'', ''volume''),
    (''dc.publisher'', ''publisher''),
    (''dc.date'', ''date''),
    (''dc.language'', ''language''),
    (''dc.subject'', ''subject''),
    (''dc.title'', ''title''),
    (''keywords'', ''keywords''),
    (''dc.type'', ''type''),
    (''dc.description'', ''description'')]"

definition meta_equivalences :: "string \<rightharpoonup> string" where
  "meta_equivalences = map_of meta_equivalences_list"

text \<open>
  The body of the loop of \<^verbatim>\<open>parse_meta_authors\<close> for one pair \<open>(t0, t1)\<close>:
  \<^verbatim>\<open>re.split\<close> raises \<^verbatim>\<open>TypeError\<close> on \<^verbatim>\<open>None\<close>, that is, when the author element
  has no \<^verbatim>\<open>content\<close> attribute. An element object is always truthy, so \<^verbatim>\<open>if t[1]\<close>
  tests only whether an institution element was paired.
\<close>

definition author_of_pair :: "tag \<times> tag option \<Rightarrow> error + author" where
  "author_of_pair t =
     (let fullname = attrs (fst t) ''content'';
          affiliation = (case snd t of
                           Some a \<Rightarrow> [\<lparr>name = attrs a ''content''\<rparr>]
                         | None \<Rightarrow> [])
      in case fullname of
           None \<Rightarrow> Inl TypeError
         | Some fn \<Rightarrow>
             (let fullnames = re_split_ws fn
              in Inr \<lparr>given = hd fullnames,
                      family = join_space (tl fullnames),
                      affiliation = affiliation\<rparr>))"

text \<open>The \<^verbatim>\<open>for t in tuples\<close> loop, appending to \<^verbatim>\<open>author_list\<close>; the first raise
  ends it.\<close>

fun authors_loop :: "author list \<Rightarrow> (tag \<times> tag option) list \<Rightarrow> error + author list" where
  "authors_loop author_list [] = Inr author_list"
| "authors_loop author_list (t # ts) =
     (case author_of_pair t of
        Inl e \<Rightarrow> Inl e
      | Inr a \<Rightarrow> authors_loop (author_list @ [a]) ts)"

definition parse_meta_authors :: "soup \<Rightarrow> error + author list" where
  "parse_meta_authors sp =
     (let authors = find_all ''meta'' [(''name'', ''citation_author'')] sp;
          affs = find_all ''meta'' [(''name'', ''citation_author_institution'')] sp
      in if affs \<noteq> [] \<and> authors \<noteq> [] then
           authors_loop [] (map (\<lambda>(a, i). (a, Some i)) (zip authors affs))
         else if authors \<noteq> [] then
           authors_loop [] (map (\<lambda>a. (a, None)) authors)
         else Inr [])"

text \<open>\<^verbatim>\<open>a or b\<close> on optional strings: \<open>a\<close> when it is truthy (present and non-empty),
  otherwise \<open>b\<close>.\<close>

definition py_or :: "string option \<Rightarrow> string option \<Rightarrow> string option" where
  "py_or a b = (case a of None \<Rightarrow> b | Some x \<Rightarrow> if x \<noteq> [] then a else b)"

text \<open>\<^verbatim>\<open>meta.attrs.get('content')\<close> as a stored value.\<close>

definition content_value :: "tag \<Rightarrow> pyval" where
  "content_value meta = (case attrs meta ''content'' of None \<Rightarrow> PNone | Some c \<Rightarrow> PStr c)"

text \<open>The body of the loop \<^verbatim>\<open>for meta in metas\<close> of \<^verbatim>\<open>parse_meta_headers\<close>.\<close>

definition meta_step :: "(string \<rightharpoonup> string) \<Rightarrow> pydict \<Rightarrow> tag \<Rightarrow> pydict" where
  "meta_step equivalences data meta =
     (let mname = py_or (attrs meta ''name'') (attrs meta ''property'')
      in case mname of
           None \<Rightarrow> data
         | Some n \<Rightarrow>
             (if n \<noteq> [] then
                (case equivalences (lower n) of
                   None \<Rightarrow> data
                 | Some field \<Rightarrow> data(field \<mapsto> content_value meta))
              else data))"

definition scan_metas :: "(string \<rightharpoonup> string) \<Rightarrow> soup \<Rightarrow> pydict" where
  "scan_metas equivalences sp =
     foldl (meta_step equivalences) Map.empty (find_all ''meta'' [] sp)"

text \<open>
  \<^verbatim>\<open>parse_meta_headers\<close> from the effective table on: the scan, then the author
  sub-extractor. \<open>author_list_to_author\<close> is \<^verbatim>\<open>papis.document.author_list_to_author\<close>,
  a function of another module, taken as a parameter.
\<close>

definition headers_from :: "(pydict \<Rightarrow> error + pyval) \<Rightarrow> (string \<rightharpoonup> string) \<Rightarrow> soup
    \<Rightarrow> error + pydict" where
  "headers_from author_list_to_author equivalences sp =
     (let data = scan_metas equivalences sp
      in case parse_meta_authors sp of
           Inl e \<Rightarrow> Inl e
         | Inr author_list \<Rightarrow>
             (if author_list \<noteq> [] then
                (let data1 = data(''author_list'' \<mapsto> PAuthorList author_list)
                 in case author_list_to_author data1 of
                      Inl e \<Rightarrow> Inl e
                    | Inr a \<Rightarrow> Inr (data1(''author'' \<mapsto> a)))
              else Inr data))"

text \<open>\<^verbatim>\<open>parse_meta_headers(soup, extra_equivalences)\<close>, the tables as values:
  \<^verbatim>\<open>copy.copy\<close> followed by \<^verbatim>\<open>update\<close> is the right-biased union.\<close>

definition parse_meta_headers :: "(pydict \<Rightarrow> error + pyval) \<Rightarrow> soup \<Rightarrow> (string \<rightharpoonup> string)
    \<Rightarrow> error + pydict" where
  "parse_meta_headers author_list_to_author sp extra_equivalences =
     (let equivalences = meta_equivalences ++ extra_equivalences
      in headers_from author_list_to_author equivalences sp)"

subsection \<open>The tables as objects in a store\<close>

text \<open>
  Dictionaries are mutable objects, and the argument \<^verbatim>\<open>extra_equivalences\<close> may be any
  dictionary object, the module-level table itself included. The store holds the
  dictionary objects by address; \<^verbatim>\<open>copy.copy\<close> allocates a new object and
  \<^verbatim>\<open>dict.update\<close> writes into the object it is called on.
\<close>

type_synonym addr = nat
type_synonym store = "(string \<rightharpoonup> string) list"

definition copy_copy :: "addr \<Rightarrow> store \<Rightarrow> addr \<times> store" where
  "copy_copy a st = (length st, st @ [st ! a])"

definition dict_update :: "addr \<Rightarrow> addr \<Rightarrow> store \<Rightarrow> store" where
  "dict_update a b st = st[a := (st ! a) ++ (st ! b)]"

text \<open>\<^verbatim>\<open>parse_meta_headers\<close> on the store: \<open>g\<close> is the address of the module-level
  \<^verbatim>\<open>meta_equivalences\<close>, \<open>x\<close> the address of the argument.\<close>

definition parse_meta_headers_store :: "(pydict \<Rightarrow> error + pyval) \<Rightarrow> addr \<Rightarrow> soup \<Rightarrow> addr
    \<Rightarrow> store \<Rightarrow> (error + pydict) \<times> store" where
  "parse_meta_headers_store author_list_to_author g sp x st =
     (let (equivalences, st1) = copy_copy g st;
          st2 = dict_update equivalences x st1
      in (headers_from author_list_to_author (st2 ! equivalences) sp, st2))"

section \<open>The downloader\<close>

text \<open>\<^verbatim>\<open>papis.importer.Context\<close>: the collected fields and the paths of the downloaded
  files.\<close>

record importer_context =
  data :: pydict
  files :: "string list"

text \<open>\<^verbatim>\<open>expected_document_extension\<close>: \<^verbatim>\<open>None\<close>, one type tag, or a list of tags.\<close>

datatype expected_extension = NoExtension | OneExtension string | ExtensionList "string list"

text \<open>
  The attributes of a \<^verbatim>\<open>Downloader\<close> that \<^verbatim>\<open>fetch\<close> reads and writes, together with
  the two parts of the outside world that it changes: \<open>requests\<close> lists the URLs that
  \<^verbatim>\<open>session.get\<close> has answered, oldest first, and \<open>written\<close> the files written, as
  pairs of path and contents. Log messages are not modelled.
\<close>

record downloader =
  ctx :: importer_context
  expected_document_extension :: expected_extension
  bibtex_data :: "string option"
  document_data :: "string option"
  requests :: "string list"
  written :: "(string \<times> string) list"

text \<open>What \<^verbatim>\<open>get_data\<close> returns: a dictionary, or an object of another type.\<close>

datatype pyobj = Dict pydict | NotDict pyval

text \<open>
  The methods a site-specific subclass overrides, each given by its outcome (the base
  class's outcome is \<open>Inl NotImplementedError\<close>), and the collaborators outside this
  module: the network (the answer to the \<open>n\<close>-th request may differ from the earlier
  ones), \<^verbatim>\<open>bytes.decode\<close>, \<^verbatim>\<open>papis.bibtex.bibtex_to_dict\<close>, \<^verbatim>\<open>filetype.guess\<close> (the
  extension of the kind it finds) and \<^verbatim>\<open>tempfile.mktemp\<close>.
\<close>

record hooks =
  get_data :: "error + pyobj"
  get_bibtex_url :: "error + string option"
  get_document_url :: "error + string option"
  get_doi :: "error + pyval"
  session_get :: "nat \<Rightarrow> string \<Rightarrow> error + string"
  decode :: "string \<Rightarrow> error + string"
  bibtex_to_dict :: "string \<Rightarrow> error + pydict list"
  filetype_guess :: "string option \<Rightarrow> string option"
  mktemp :: "nat \<Rightarrow> string"

text \<open>Truthiness of an optional string: \<^verbatim>\<open>None\<close> and the empty string are falsy.\<close>

definition truthy :: "string option \<Rightarrow> bool" where
  "truthy x = (case x of None \<Rightarrow> False | Some v \<Rightarrow> v \<noteq> [])"

text \<open>
  A method takes the state and returns its result, or the exception it raised, with the
  state it leaves behind. \<^verbatim>\<open>download_bibtex\<close> returns \<^verbatim>\<open>False\<close> (\<open>Some False\<close>) for a
  falsy URL and \<^verbatim>\<open>None\<close> otherwise.
\<close>

definition download_bibtex :: "hooks \<Rightarrow> downloader \<Rightarrow> (error + bool option) \<times> downloader" where
  "download_bibtex h s =
     (case get_bibtex_url h of
        Inl e \<Rightarrow> (Inl e, s)
      | Inr url \<Rightarrow>
          if \<not> truthy url then (Inr (Some False), s)
          else
            (case session_get h (length (requests s)) (the url) of
               Inl e \<Rightarrow> (Inl e, s)
             | Inr content \<Rightarrow>
                 (let s1 = s\<lparr>requests := requests s @ [the url]\<rparr>
                  in case decode h content of
                       Inl e \<Rightarrow> (Inl e, s1)
                     | Inr text \<Rightarrow> (Inr None, s1\<lparr>bibtex_data := Some text\<rparr>))))"

definition get_bibtex_data :: "hooks \<Rightarrow> downloader \<Rightarrow> (error + string option) \<times> downloader" where
  "get_bibtex_data h s =
     (if \<not> truthy (bibtex_data s) then
        (case download_bibtex h s of
           (Inl e, s1) \<Rightarrow> (Inl e, s1)
         | (Inr _, s1) \<Rightarrow> (Inr (bibtex_data s1), s1))
      else (Inr (bibtex_data s), s))"

definition download_document :: "hooks \<Rightarrow> downloader \<Rightarrow> (error + bool option) \<times> downloader" where
  "download_document h s =
     (case get_document_url h of
        Inl e \<Rightarrow> (Inl e, s)
      | Inr url \<Rightarrow>
          if \<not> truthy url then (Inr (Some False), s)
          else
            (case session_get h (length (requests s)) (the url) of
               Inl e \<Rightarrow> (Inl e, s)
             | Inr content \<Rightarrow>
                 (Inr None, s\<lparr>requests := requests s @ [the url],
                              document_data := Some content\<rparr>)))"

definition get_document_data :: "hooks \<Rightarrow> downloader \<Rightarrow> (error + string option) \<times> downloader" where
  "get_document_data h s =
     (if \<not> truthy (document_data s) then
        (case download_document h s of
           (Inl e, s1) \<Rightarrow> (Inl e, s1)
         | (Inr _, s1) \<Rightarrow> (Inr (document_data s1), s1))
      else (Inr (document_data s), s))"

text \<open>
  \<^verbatim>\<open>check_document_format\<close>. The local \<^verbatim>\<open>expected_document_extensions\<close> is assigned
  only when the configured value is not a list; reading it in the other case raises
  \<^verbatim>\<open>UnboundLocalError\<close>.
\<close>

definition check_document_format :: "hooks \<Rightarrow> downloader \<Rightarrow> (error + bool) \<times> downloader" where
  "check_document_format h s =
     (case expected_document_extension s of
        NoExtension \<Rightarrow> (Inr True, s)
      | expected \<Rightarrow>
          (case get_document_data h s of
             (Inl e, s1) \<Rightarrow> (Inl e, s1)
           | (Inr d, s1) \<Rightarrow>
               (case filetype_guess h d of
                  None \<Rightarrow> (Inr False, s1)
                | Some extension \<Rightarrow>
                    (case expected of
                       ExtensionList _ \<Rightarrow> (Inl UnboundLocalError, s1)
                     | OneExtension x \<Rightarrow>
                         (let expected_document_extensions = [x]
                          in (Inr (extension \<in> set expected_document_extensions), s1))
                     | NoExtension \<Rightarrow> (Inr True, s1)))))"

subsection \<open>The four stages of \<^verbatim>\<open>fetch\<close>\<close>

definition ctx_data_update :: "pydict \<Rightarrow> downloader \<Rightarrow> downloader" where
  "ctx_data_update d s = s\<lparr>ctx := (ctx s)\<lparr>data := data (ctx s) ++ d\<rparr>\<rparr>"

definition data_stage :: "hooks \<Rightarrow> downloader \<Rightarrow> (error + unit) \<times> downloader" where
  "data_stage h s =
     (case get_data h of
        Inl e \<Rightarrow> if e = NotImplementedError then (Inr (), s) else (Inl e, s)
      | Inr (NotDict _) \<Rightarrow> (Inl AssertionError, s)
      | Inr (Dict d) \<Rightarrow> (Inr (), ctx_data_update d s))"

definition bibtex_stage :: "hooks \<Rightarrow> downloader \<Rightarrow> (error + unit) \<times> downloader" where
  "bibtex_stage h s =
     (case download_bibtex h s of
        (Inl e, s1) \<Rightarrow> if e = NotImplementedError then (Inr (), s1) else (Inl e, s1)
      | (Inr _, s1) \<Rightarrow>
          (case get_bibtex_data h s1 of
             (Inl e, s2) \<Rightarrow> (Inl e, s2)
           | (Inr bib_rawdata, s2) \<Rightarrow>
               if truthy bib_rawdata then
                 (case bibtex_to_dict h (the bib_rawdata) of
                    Inl e \<Rightarrow> (Inl e, s2)
                  | Inr datalist \<Rightarrow>
                      (case datalist of
                         [] \<Rightarrow> (Inr (), s2)
                       | d # _ \<Rightarrow> (Inr (), ctx_data_update d s2)))
               else (Inr (), s2)))"

definition doi_stage :: "hooks \<Rightarrow> downloader \<Rightarrow> (error + unit) \<times> downloader" where
  "doi_stage h s =
     (case get_doi h of
        Inl e \<Rightarrow> if e = NotImplementedError then (Inr (), s) else (Inl e, s)
      | Inr doi \<Rightarrow> (Inr (), s\<lparr>ctx := (ctx s)\<lparr>data := (data (ctx s))(''doi'' \<mapsto> doi)\<rparr>\<rparr>))"

definition document_stage :: "hooks \<Rightarrow> downloader \<Rightarrow> (error + unit) \<times> downloader" where
  "document_stage h s =
     (case download_document h s of
        (Inl e, s1) \<Rightarrow> if e = NotImplementedError then (Inr (), s1) else (Inl e, s1)
      | (Inr _, s1) \<Rightarrow>
          (case get_document_data h s1 of
             (Inl e, s2) \<Rightarrow> (Inl e, s2)
           | (Inr doc_rawdata, s2) \<Rightarrow>
               if truthy doc_rawdata then
                 (case check_document_format h s2 of
                    (Inl e, s3) \<Rightarrow> (Inl e, s3)
                  | (Inr ok, s3) \<Rightarrow>
                      if ok then
                        (let tmp = mktemp h (length (written s3))
                         in (Inr (),
                             s3\<lparr>written := written s3 @ [(tmp, the doc_rawdata)],
                                ctx := (ctx s3)\<lparr>files := files (ctx s3) @ [tmp]\<rparr>\<rparr>))
                      else (Inr (), s3))
               else (Inr (), s2)))"

text \<open>\<^verbatim>\<open>fetch\<close>: the stages in order; an exception that a stage lets through ends it.\<close>

definition fetch :: "hooks \<Rightarrow> downloader \<Rightarrow> (error + unit) \<times> downloader" where
  "fetch h s =
     (case data_stage h s of
        (Inl e, s1) \<Rightarrow> (Inl e, s1)
      | (Inr _, s1) \<Rightarrow>
          (case bibtex_stage h s1 of
             (Inl e, s2) \<Rightarrow> (Inl e, s2)
           | (Inr _, s2) \<Rightarrow>
               (case doi_stage h s2 of
                  (Inl e, s3) \<Rightarrow> (Inl e, s3)
                | (Inr _, s3) \<Rightarrow> document_stage h s3)))"

section \<open>Notions used in the statements, and concrete inputs\<close>

text \<open>
  \<open>author_record\<close> is the record that the loop of \<^verbatim>\<open>parse_meta_authors\<close> builds from a
  full name and an affiliation list. \<open>build_name\<close> writes a full name from its tokens: the
  first token \<open>g\<close>, then each further token of \<open>fs\<close> behind its separator of \<open>seps\<close>.
  The remaining definitions are concrete documents, tables, downloaders and collaborators
  on which the theorems are instantiated.
\<close>

definition meta_tag :: "(string \<times> string) list \<Rightarrow> tag" where
  "meta_tag kvs = \<lparr>tname = ''meta'', attrs = map_of kvs\<rparr>"

definition author_record :: "string \<Rightarrow> affiliation_entry list \<Rightarrow> author" where
  "author_record fn aff =
     \<lparr>given = hd (re_split_ws fn), family = join_space (tl (re_split_ws fn)), affiliation = aff\<rparr>"

definition build_name :: "string \<Rightarrow> string list \<Rightarrow> string list \<Rightarrow> string" where
  "build_name g seps fs = g @ concat (map (\<lambda>(s, w). s @ w) (zip seps fs))"

text \<open>
  The claim's wording, written with library functions only: \<open>single_spaced\<close> joins tokens
  by one space each, and \<open>tokenisation fn g seps fs\<close> says that the name \<open>fn\<close> consists
  of the non-empty whitespace-free tokens \<open>g\<close> and \<open>fs\<close>, consecutive tokens separated
  by the non-empty runs of whitespace \<open>seps\<close>.
\<close>

definition single_spaced :: "string list \<Rightarrow> string" where
  "single_spaced ts =
     (case ts of [] \<Rightarrow> [] | w # ws \<Rightarrow> w @ concat (map (\<lambda>v. CHR '' '' # v) ws))"

definition tokenisation :: "string \<Rightarrow> string \<Rightarrow> string list \<Rightarrow> string list \<Rightarrow> bool" where
  "tokenisation fn g seps fs \<longleftrightarrow>
     fn = build_name g seps fs \<and> length seps = length fs \<and>
     g \<noteq> [] \<and> (\<forall>c\<in>set g. \<not> is_space c) \<and>
     (\<forall>w\<in>set fs. w \<noteq> [] \<and> (\<forall>c\<in>set w. \<not> is_space c)) \<and>
     (\<forall>p\<in>set seps. p \<noteq> [] \<and> (\<forall>c\<in>set p. is_space c))"

definition author_tag :: "string \<Rightarrow> tag" where
  "author_tag fn = meta_tag [(''name'', ''citation_author''), (''content'', fn)]"

definition soup_three_two :: soup where
  "soup_three_two =
     [meta_tag [(''name'', ''citation_author''), (''content'', ''Jane Q. Public'')],
      meta_tag [(''name'', ''citation_author_institution''), (''content'', ''MIT'')],
      \<lparr>tname = ''title'', attrs = Map.empty\<rparr>,
      meta_tag [(''name'', ''citation_author''), (''content'', ''Prince'')],
      meta_tag [(''name'', ''citation_author_institution''), (''content'', ''ETH'')],
      meta_tag [(''name'', ''citation_author'')]]"

definition constant_formatter :: "pydict \<Rightarrow> error + pyval" where
  "constant_formatter d = Inr (PStr ''Public, Jane Q.'')"

definition extra_override :: "string \<rightharpoonup> string" where
  "extra_override = [''citation_doi'' \<mapsto> ''identifier'']"

definition doi_tag :: tag where
  "doi_tag = meta_tag [(''name'', ''Citation_DOI''), (''content'', ''10.1000/182'')]"

definition soup_override :: soup where
  "soup_override =
     [meta_tag [(''property'', ''og:title''), (''content'', ''On Tables'')], doi_tag]"


definition soup_author_without_content :: soup where
  "soup_author_without_content = [meta_tag [(''name'', ''citation_author'')]]"




definition store_two_tables :: store where
  "store_two_tables = [meta_equivalences, extra_override]"

text \<open>The attributes as \<^verbatim>\<open>__init__\<close> leaves them, with a fresh context and the outside
  world untouched; \<open>ext\<close> is what a subclass then assigns to
  \<^verbatim>\<open>expected_document_extension\<close> (\<^verbatim>\<open>__init__\<close> itself assigns \<^verbatim>\<open>None\<close>).\<close>

definition new_downloader :: "expected_extension \<Rightarrow> downloader" where
  "new_downloader ext =
     \<lparr>ctx = \<lparr>data = Map.empty, files = []\<rparr>,
      expected_document_extension = ext,
      bibtex_data = None,
      document_data = None,
      requests = [],
      written = []\<rparr>"

text \<open>A downloader that implements every stage: the site serves a bibtex entry and an
  EPUB file.\<close>

definition site_hooks :: hooks where
  "site_hooks =
     \<lparr>get_data = Inr (Dict [''title'' \<mapsto> PStr ''Draft'', ''year'' \<mapsto> PStr ''2019'']),
      get_bibtex_url = Inr (Some ''ref.bib''),
      get_document_url = Inr (Some ''doc''),
      get_doi = Inr (PStr ''10.1000/182''),
      session_get = (\<lambda>n url. if url = ''ref.bib'' then Inr ''@article{a}'' else Inr ''PK-epub''),
      decode = Inr,
      bibtex_to_dict = (\<lambda>text. Inr [[''title'' \<mapsto> PStr ''Final'', ''doi'' \<mapsto> PStr ''10.1000/1'']]),
      filetype_guess = (\<lambda>d. if d = Some ''PK-epub'' then Some ''epub'' else None),
      mktemp = (\<lambda>n. ''tmp'' @ replicate n CHR ''x'')\<rparr>"

text \<open>A downloader that implements \<^verbatim>\<open>get_doi\<close> only.\<close>

definition doi_only_hooks :: hooks where
  "doi_only_hooks =
     \<lparr>get_data = Inl NotImplementedError,
      get_bibtex_url = Inl NotImplementedError,
      get_document_url = Inl NotImplementedError,
      get_doi = Inr (PStr ''10.1000/182''),
      session_get = (\<lambda>n url. Inl (OtherError ''no network'')),
      decode = Inr,
      bibtex_to_dict = (\<lambda>text. Inr []),
      filetype_guess = (\<lambda>d. None),
      mktemp = (\<lambda>n. ''tmp'')\<rparr>"

text \<open>A site that answers every request with an empty body.\<close>

definition empty_body_hooks :: hooks where
  "empty_body_hooks =
     \<lparr>get_data = Inl NotImplementedError,
      get_bibtex_url = Inr (Some ''ref.bib''),
      get_document_url = Inr (Some ''doc''),
      get_doi = Inl NotImplementedError,
      session_get = (\<lambda>n url. Inr []),
      decode = Inr,
      bibtex_to_dict = (\<lambda>text. Inr []),
      filetype_guess = (\<lambda>d. None),
      mktemp = (\<lambda>n. ''tmp'')\<rparr>"

text \<open>A downloader that accepts two formats and has a PDF file in its cache.\<close>

definition pdf_hooks :: hooks where
  "pdf_hooks =
     \<lparr>get_data = Inl NotImplementedError,
      get_bibtex_url = Inl NotImplementedError,
      get_document_url = Inr (Some ''doc''),
      get_doi = Inl NotImplementedError,
      session_get = (\<lambda>n url. Inr ''%PDF-1.4''),
      decode = Inr,
      bibtex_to_dict = (\<lambda>text. Inr []),
      filetype_guess = (\<lambda>d. if d = Some ''%PDF-1.4'' then Some ''pdf'' else None),
      mktemp = (\<lambda>n. ''tmp'')\<rparr>"

definition two_formats_downloader :: downloader where
  "two_formats_downloader =
     (new_downloader (ExtensionList [''pdf'', ''epub'']))\<lparr>document_data := Some ''%PDF-1.4''\<rparr>"

text \<open>The states of the full downloader: after the structured-data stage, after the
  bibtex download, and after \<^verbatim>\<open>fetch\<close>.\<close>

definition site_data :: pydict where
  "site_data = [''title'' \<mapsto> PStr ''Draft'', ''year'' \<mapsto> PStr ''2019'']"

definition site_entry :: pydict where
  "site_entry = [''title'' \<mapsto> PStr ''Final'', ''doi'' \<mapsto> PStr ''10.1000/1'']"

definition site_after_bibtex_download :: downloader where
  "site_after_bibtex_download =
     (ctx_data_update site_data (new_downloader (OneExtension ''pdf'')))
       \<lparr>bibtex_data := Some ''@article{a}'', requests := [''ref.bib'']\<rparr>"

definition site_after_fetch :: downloader where
  "site_after_fetch =
     \<lparr>ctx = \<lparr>data = (site_data ++ site_entry)(''doi'' \<mapsto> PStr ''10.1000/182''), files = []\<rparr>,
      expected_document_extension = OneExtension ''pdf'',
      bibtex_data = Some ''@article{a}'',
      document_data = Some ''PK-epub'',
      requests = [''ref.bib'', ''doc''],
      written = []\<rparr>"

text \<open>A downloader that expects a PDF file, after it has downloaded an EPUB file.\<close>

definition epub_downloaded :: downloader where
  "epub_downloaded =
     (new_downloader (OneExtension ''pdf''))
       \<lparr>document_data := Some ''PK-epub'', requests := [''doc'']\<rparr>"

text \<open>The states of a downloader after one and after two requests that were answered
  with an empty body.\<close>

definition after_empty_bibtex :: "nat \<Rightarrow> downloader" where
  "after_empty_bibtex n =
     (new_downloader NoExtension)\<lparr>bibtex_data := Some [], requests := replicate n ''ref.bib''\<rparr>"

definition after_empty_document :: "nat \<Rightarrow> downloader" where
  "after_empty_document n =
     (new_downloader NoExtension)\<lparr>document_data := Some [], requests := replicate n ''doc''\<rparr>"

section \<open>Properties\<close>

lemma re_split_ws_nonempty: "re_split_ws s \<noteq> []"
  by (induction s) (auto split: list.splits)

lemma re_split_ws_token:
  "\<forall>c\<in>set w. \<not> is_space c \<Longrightarrow>
   re_split_ws (w @ rest) = (w @ hd (re_split_ws rest)) # tl (re_split_ws rest)"
proof (induction w)
  case Nil
  then show ?case using re_split_ws_nonempty [of rest] by (cases "re_split_ws rest") auto
next
  case (Cons c w)
  then show ?case by (auto split: list.splits)
qed

lemma re_split_ws_sep:
  "sep \<noteq> [] \<Longrightarrow> \<forall>c\<in>set sep. is_space c \<Longrightarrow> rest = [] \<or> \<not> is_space (hd rest) \<Longrightarrow>
   re_split_ws (sep @ rest) = [] # re_split_ws rest"
proof (induction sep)
  case Nil
  then show ?case by simp
next
  case (Cons c sep)
  show ?case
  proof (cases sep)
    case Nil
    with Cons.prems show ?thesis by (cases rest) auto
  next
    case (Cons d ds)
    with Cons.prems Cons.IH show ?thesis by auto
  qed
qed

lemma re_split_ws_build:
  "\<forall>c\<in>set g. \<not> is_space c \<Longrightarrow>
   \<forall>w\<in>set fs. w \<noteq> [] \<and> (\<forall>c\<in>set w. \<not> is_space c) \<Longrightarrow>
   \<forall>s\<in>set seps. s \<noteq> [] \<and> (\<forall>c\<in>set s. is_space c) \<Longrightarrow>
   length seps = length fs \<Longrightarrow>
   re_split_ws (build_name g seps fs) = g # fs"
proof (induction fs arbitrary: g seps)
  case Nil
  then show ?case using re_split_ws_token [of g "[]"] by (simp add: build_name_def)
next
  case (Cons w fs)
  then obtain s seps' where seps: "seps = s # seps'" by (cases seps) auto
  have ih: "re_split_ws (build_name w seps' fs) = w # fs"
    using Cons.prems seps by (intro Cons.IH) auto
  have w: "w \<noteq> []" "\<not> is_space (hd w)" using Cons.prems(2) by (cases w; simp)+
  have sp: "re_split_ws (s @ build_name w seps' fs) = [] # w # fs"
    using re_split_ws_sep [of s "build_name w seps' fs"] Cons.prems(3) seps w ih
    by (cases w) (auto simp: build_name_def)
  have "build_name g seps (w # fs) = g @ (s @ build_name w seps' fs)"
    by (simp add: build_name_def seps)
  then show ?case using re_split_ws_token [of g "s @ build_name w seps' fs"] Cons.prems(1) sp
    by simp
qed

lemma author_of_pair_content:
  "attrs (fst t) ''content'' = Some fn \<Longrightarrow>
   author_of_pair t = Inr (author_record fn
       (case snd t of Some a \<Rightarrow> [\<lparr>name = attrs a ''content''\<rparr>] | None \<Rightarrow> []))"
  by (simp add: author_of_pair_def author_record_def Let_def)

lemma authors_loop_ok:
  "\<forall>t\<in>set ts. attrs (fst t) ''content'' \<noteq> None \<Longrightarrow>
   authors_loop acc ts =
     Inr (acc @ map (\<lambda>t. author_record (the (attrs (fst t) ''content''))
                        (case snd t of Some a \<Rightarrow> [\<lparr>name = attrs a ''content''\<rparr>] | None \<Rightarrow> [])) ts)"
proof (induction ts arbitrary: acc)
  case Nil
  then show ?case by simp
next
  case (Cons t ts)
  then obtain fn where fn: "attrs (fst t) ''content'' = Some fn" by auto
  show ?case using Cons.prems by (simp add: author_of_pair_content [OF fn] fn Cons.IH)
qed

lemma zip_fst_take: "(a, i) \<in> set (zip xs ys) \<Longrightarrow> a \<in> set (take (length ys) xs)"
proof -
  assume "(a, i) \<in> set (zip xs ys)"
  then obtain n where n: "n < length xs" "n < length ys" "xs ! n = a"
    by (auto simp: set_zip)
  then have "take (length ys) xs ! n = a" "n < length (take (length ys) xs)"
    by simp_all
  then show ?thesis using nth_mem by blast
qed

text \<open>\<^bold>\<open>C5\<close>, as amended. Let \<open>authors\<close> and \<open>affs\<close> be the \<^verbatim>\<open>citation_author\<close> and
  \<^verbatim>\<open>citation_author_institution\<close> elements of the document, in document order, and let
  every author element that the loop reaches carry a \<^verbatim>\<open>content\<close> attribute: all of them
  when there is no institution element, the first \<open>length affs\<close> of them otherwise. If
  both lists are non-empty, \<^verbatim>\<open>parse_meta_authors\<close> returns as many records as the shorter
  list has elements, the \<open>i\<close>-th built from author \<open>i\<close> with institution \<open>i\<close> as its only
  affiliation. If only authors exist it returns one record per author, in order, each with
  an empty affiliation list. Without author elements it returns the empty list.\<close>

theorem parse_meta_authors_pairing:
  assumes authors: "authors = find_all ''meta'' [(''name'', ''citation_author'')] sp"
    and affs: "affs = find_all ''meta'' [(''name'', ''citation_author_institution'')] sp"
    and content: "\<forall>a\<in>set (if affs = [] then authors else take (length affs) authors).
                    attrs a ''content'' \<noteq> None"
  shows "(authors \<noteq> [] \<and> affs \<noteq> [] \<longrightarrow>
           (\<exists>rs. parse_meta_authors sp = Inr rs \<and>
                 length rs = min (length authors) (length affs) \<and>
                 (\<forall>i<length rs. rs ! i =
                    author_record (the (attrs (authors ! i) ''content''))
                      [\<lparr>name = attrs (affs ! i) ''content''\<rparr>]))) \<and>
         (authors \<noteq> [] \<and> affs = [] \<longrightarrow>
           parse_meta_authors sp =
             Inr (map (\<lambda>a. author_record (the (attrs a ''content'')) []) authors)) \<and>
         (authors = [] \<longrightarrow> parse_meta_authors sp = Inr [])"
proof (intro conjI impI)
  assume ne: "authors \<noteq> [] \<and> affs \<noteq> []"
  let ?ts = "map (\<lambda>(a, i). (a, Some i)) (zip authors affs)"
  let ?rs = "map (\<lambda>t. author_record (the (attrs (fst t) ''content''))
                 (case snd t of Some a \<Rightarrow> [\<lparr>name = attrs a ''content''\<rparr>] | None \<Rightarrow> [])) ?ts"
  have "\<forall>t\<in>set ?ts. attrs (fst t) ''content'' \<noteq> None"
    using content ne by (auto dest!: zip_fst_take)
  then have loop: "authors_loop [] ?ts = Inr ?rs"
    using authors_loop_ok [of ?ts "[]"] by simp
  have run: "parse_meta_authors sp = Inr ?rs"
    using ne loop authors affs by (simp add: parse_meta_authors_def Let_def)
  have len: "length ?rs = min (length authors) (length affs)" by simp
  have nth: "\<forall>i<length ?rs. ?rs ! i =
      author_record (the (attrs (authors ! i) ''content'')) [\<lparr>name = attrs (affs ! i) ''content''\<rparr>]"
    by simp
  from run len nth
  show "\<exists>rs. parse_meta_authors sp = Inr rs \<and>
          length rs = min (length authors) (length affs) \<and>
          (\<forall>i<length rs. rs ! i =
             author_record (the (attrs (authors ! i) ''content''))
               [\<lparr>name = attrs (affs ! i) ''content''\<rparr>])"
    by blast
next
  assume ne: "authors \<noteq> [] \<and> affs = []"
  let ?ts = "map (\<lambda>a. (a, None :: tag option)) authors"
  have "\<forall>t\<in>set ?ts. attrs (fst t) ''content'' \<noteq> None"
    using content ne by auto
  then have "authors_loop [] ?ts =
      Inr (map (\<lambda>a. author_record (the (attrs a ''content'')) []) authors)"
    using authors_loop_ok [of ?ts "[]"] by (simp add: comp_def)
  then show "parse_meta_authors sp =
      Inr (map (\<lambda>a. author_record (the (attrs a ''content'')) []) authors)"
    using ne authors affs by (simp add: parse_meta_authors_def Let_def)
next
  assume "authors = []"
  then show "parse_meta_authors sp = Inr []"
    using authors by (simp add: parse_meta_authors_def Let_def)
qed

text \<open>Three authors and two institutions, interleaved with another element. The third author
  has no \<^verbatim>\<open>content\<close> attribute and is not reached: the result pairs the first two
  authors with the two institutions.\<close>

theorem parse_meta_authors_pairing_witness:
  "parse_meta_authors soup_three_two =
     Inr [\<lparr>given = ''Jane'', family = ''Q. Public'', affiliation = [\<lparr>name = Some ''MIT''\<rparr>]\<rparr>,
          \<lparr>given = ''Prince'', family = '''', affiliation = [\<lparr>name = Some ''ETH''\<rparr>]\<rparr>]"
proof -
  let ?authors = "[meta_tag [(''name'', ''citation_author''), (''content'', ''Jane Q. Public'')],
                   meta_tag [(''name'', ''citation_author''), (''content'', ''Prince'')],
                   meta_tag [(''name'', ''citation_author'')]]"
  let ?affs = "[meta_tag [(''name'', ''citation_author_institution''), (''content'', ''MIT'')],
                meta_tag [(''name'', ''citation_author_institution''), (''content'', ''ETH'')]]"
  have a: "?authors = find_all ''meta'' [(''name'', ''citation_author'')] soup_three_two"
    by (simp add: find_all_def soup_three_two_def meta_tag_def)
  have b: "?affs = find_all ''meta'' [(''name'', ''citation_author_institution'')] soup_three_two"
    by (simp add: find_all_def soup_three_two_def meta_tag_def)
  have c: "\<forall>a\<in>set (if ?affs = [] then ?authors else take (length ?affs) ?authors).
             attrs a ''content'' \<noteq> None"
    by (simp add: meta_tag_def)
  from parse_meta_authors_pairing [OF a b c]
  obtain rs where run: "parse_meta_authors soup_three_two = Inr rs"
    and len: "length rs = 2"
    and nth: "\<forall>i<length rs. rs ! i =
                author_record (the (attrs (?authors ! i) ''content''))
                  [\<lparr>name = attrs (?affs ! i) ''content''\<rparr>]"
    by auto
  have r0: "rs ! 0 = \<lparr>given = ''Jane'', family = ''Q. Public'',
                       affiliation = [\<lparr>name = Some ''MIT''\<rparr>]\<rparr>"
    using nth len by (simp add: author_record_def meta_tag_def is_space_def)
  have r1: "rs ! 1 = \<lparr>given = ''Prince'', family = '''',
                       affiliation = [\<lparr>name = Some ''ETH''\<rparr>]\<rparr>"
    using nth len by (simp add: author_record_def meta_tag_def is_space_def)
  have "rs = [rs ! 0, rs ! 1]"
    using len by (auto simp: list_eq_iff_nth_eq less_Suc_eq numeral_2_eq_2)
  with run r0 r1 show ?thesis by simp
qed

text \<open>\<^bold>\<open>C5\<close>, as stated, fails. A document whose only \<^verbatim>\<open>meta\<close> element is a
  \<^verbatim>\<open>citation_author\<close> without \<^verbatim>\<open>content\<close> has one author element and no institution
  element, and \<^verbatim>\<open>parse_meta_authors\<close> raises \<^verbatim>\<open>TypeError\<close> where the claim has it return
  one record.\<close>

theorem parse_meta_authors_missing_content_counterexample:
  "find_all ''meta'' [(''name'', ''citation_author'')] soup_author_without_content
     = [meta_tag [(''name'', ''citation_author'')]] \<and>
   find_all ''meta'' [(''name'', ''citation_author_institution'')] soup_author_without_content
     = [] \<and>
   parse_meta_authors soup_author_without_content = Inl TypeError"
  by (simp add: parse_meta_authors_def find_all_def soup_author_without_content_def
      meta_tag_def author_of_pair_def)

text \<open>\<^verbatim>\<open>' '.join\<close> puts exactly one space between consecutive pieces.\<close>

lemma join_space_single_spaced: "join_space ts = single_spaced ts"
  by (induction ts rule: join_space.induct) (simp_all add: single_spaced_def)

lemma build_name_cons:
  "build_name g (p # seps) (w # fs) = g @ p @ build_name w seps fs"
  by (simp add: build_name_def)

lemma leading_run:
  "xs \<noteq> [] \<Longrightarrow> P (hd xs) \<Longrightarrow>
   \<exists>g r. xs = g @ r \<and> g \<noteq> [] \<and> (\<forall>c\<in>set g. P c) \<and> (r = [] \<or> \<not> P (hd r))"
proof (intro exI conjI)
  assume xs: "xs \<noteq> []" "P (hd xs)"
  show "xs = takeWhile P xs @ dropWhile P xs" by simp
  show "takeWhile P xs \<noteq> []" using xs by (cases xs) simp_all
  show "\<forall>c\<in>set (takeWhile P xs). P c" by (auto dest: set_takeWhileD)
  show "dropWhile P xs = [] \<or> \<not> P (hd (dropWhile P xs))"
    using hd_dropWhile [of P xs] by blast
qed

lemma tokenisation_exists:
  "fn \<noteq> [] \<Longrightarrow> \<not> is_space (hd fn) \<Longrightarrow> \<not> is_space (last fn) \<Longrightarrow>
   \<exists>g seps fs. tokenisation fn g seps fs"
proof (induction fn rule: length_induct)
  case (1 fn)
  from leading_run [of fn "\<lambda>c. \<not> is_space c"] "1.prems"(1,2)
  obtain g r where fn: "fn = g @ r" and g: "g \<noteq> []" "\<forall>c\<in>set g. \<not> is_space c"
    and r: "r = [] \<or> is_space (hd r)"
    by auto
  show ?case
  proof (cases "r = []")
    case True
    then have "tokenisation fn g [] []"
      using fn g by (simp add: tokenisation_def build_name_def)
    then show ?thesis by blast
  next
    case False
    with r have "is_space (hd r)" by simp
    from leading_run [of r is_space, OF False this]
    obtain p s where rs: "r = p @ s" and p: "p \<noteq> []" "\<forall>c\<in>set p. is_space c"
      and s: "s = [] \<or> \<not> is_space (hd s)"
      by auto
    have last_fn: "\<not> is_space (last (g @ p @ s))"
      using "1.prems"(3) fn rs by simp
    have s_ne: "s \<noteq> []"
    proof
      assume "s = []"
      then have "last (g @ p @ s) = last p" using p(1) by simp
      then show False using last_fn p by (metis last_in_set)
    qed
    then have hd_s: "\<not> is_space (hd s)" using s by simp
    have last_s: "\<not> is_space (last s)" using last_fn s_ne by simp
    have "length s < length fn" using fn rs p(1) by simp
    with "1.IH" s_ne hd_s last_s
    obtain g' seps' fs' where t: "tokenisation s g' seps' fs'" by blast
    have "fn = build_name g (p # seps') (g' # fs')"
      using fn rs t by (simp add: tokenisation_def build_name_cons)
    then have "tokenisation fn g (p # seps') (g' # fs')"
      using t g p by (simp add: tokenisation_def)
    then show ?thesis by blast
  qed
qed

text \<open>\<^bold>\<open>C6\<close>, as amended. A full name that is not empty and neither begins nor ends with
  whitespace consists of non-empty whitespace-free tokens separated by runs of whitespace.
  For every full name that \<^verbatim>\<open>parse_meta_authors\<close> processes and every such reading of it,
  the record holds the first token as the given name and the remaining tokens, joined by
  one space each, as the family name. \<^verbatim>\<open>Jane Q. Public\<close> gives \<^verbatim>\<open>Jane\<close> and
  \<^verbatim>\<open>Q. Public\<close>; \<^verbatim>\<open>Prince\<close> gives \<^verbatim>\<open>Prince\<close> and the empty family name.\<close>

theorem full_name_split:
  assumes content: "attrs (fst t) ''content'' = Some fn"
  shows "(fn \<noteq> [] \<and> \<not> is_space (hd fn) \<and> \<not> is_space (last fn)
            \<longrightarrow> (\<exists>g seps fs. tokenisation fn g seps fs)) \<and>
         (\<forall>g seps fs. tokenisation fn g seps fs
            \<longrightarrow> author_of_pair t =
                  Inr \<lparr>given = g, family = single_spaced fs,
                       affiliation = (case snd t of
                                        Some a \<Rightarrow> [\<lparr>name = attrs a ''content''\<rparr>]
                                      | None \<Rightarrow> [])\<rparr>) \<and>
         (fn = ''Jane Q. Public''
            \<longrightarrow> (\<exists>a. author_of_pair t = Inr a \<and> given a = ''Jane'' \<and> family a = ''Q. Public'')) \<and>
         (fn = ''Prince''
            \<longrightarrow> (\<exists>a. author_of_pair t = Inr a \<and> given a = ''Prince'' \<and> family a = ''''))"
proof (intro conjI allI impI)
  note run = author_of_pair_content [OF content]
  show "\<exists>g seps fs. tokenisation fn g seps fs"
    if "fn \<noteq> [] \<and> \<not> is_space (hd fn) \<and> \<not> is_space (last fn)"
    using that tokenisation_exists [of fn] by blast
  show "author_of_pair t =
          Inr \<lparr>given = g, family = single_spaced fs,
               affiliation = (case snd t of
                                Some a \<Rightarrow> [\<lparr>name = attrs a ''content''\<rparr>]
                              | None \<Rightarrow> [])\<rparr>"
    if tok: "tokenisation fn g seps fs" for g seps fs
  proof -
    have "re_split_ws (build_name g seps fs) = g # fs"
      using tok unfolding tokenisation_def by (intro re_split_ws_build) simp_all
    moreover have "fn = build_name g seps fs"
      using tok by (simp add: tokenisation_def)
    ultimately show ?thesis
      by (simp add: run author_record_def join_space_single_spaced)
  qed
  have jane: "re_split_ws ''Jane Q. Public'' = [''Jane'', ''Q.'', ''Public'']"
    by (simp add: is_space_def)
  show "\<exists>a. author_of_pair t = Inr a \<and> given a = ''Jane'' \<and> family a = ''Q. Public''"
    if "fn = ''Jane Q. Public''"
    using jane by (simp add: run author_record_def that)
  have prince: "re_split_ws ''Prince'' = [''Prince'']"
    by (simp add: is_space_def)
  show "\<exists>a. author_of_pair t = Inr a \<and> given a = ''Prince'' \<and> family a = ''''"
    if "fn = ''Prince''"
    using prince by (simp add: run author_record_def that)
qed
text \<open>A name whose three tokens are separated by a run of two spaces and a run of one.\<close>

theorem full_name_split_witness:
  "attrs (fst (author_tag ''Jane  Q. Public'', None :: tag option)) ''content''
     = Some ''Jane  Q. Public'' \<and>
   ''Jane  Q. Public'' \<noteq> [] \<and> \<not> is_space (hd ''Jane  Q. Public'') \<and>
   \<not> is_space (last ''Jane  Q. Public'') \<and>
   tokenisation ''Jane  Q. Public'' ''Jane'' [''  '', '' ''] [''Q.'', ''Public''] \<and>
   author_of_pair (author_tag ''Jane  Q. Public'', None)
     = Inr \<lparr>given = ''Jane'', family = ''Q. Public'', affiliation = []\<rparr>"
proof -
  let ?t = "(author_tag ''Jane  Q. Public'', None :: tag option)"
  have h: "attrs (fst ?t) ''content'' = Some ''Jane  Q. Public''"
    by (simp add: author_tag_def meta_tag_def)
  have ends: "''Jane  Q. Public'' \<noteq> [] \<and> \<not> is_space (hd ''Jane  Q. Public'') \<and>
      \<not> is_space (last ''Jane  Q. Public'')"
    by (simp add: is_space_def)
  have tok: "tokenisation ''Jane  Q. Public'' ''Jane'' [''  '', '' ''] [''Q.'', ''Public'']"
    by (simp add: tokenisation_def build_name_def is_space_def)
  have "\<exists>g seps fs. tokenisation ''Jane  Q. Public'' g seps fs"
    using full_name_split [OF h, THEN conjunct1, rule_format, OF ends] .
  have "author_of_pair ?t =
      Inr \<lparr>given = ''Jane'', family = single_spaced [''Q.'', ''Public''],
           affiliation = (case snd ?t of
                            Some a \<Rightarrow> [\<lparr>name = attrs a ''content''\<rparr>]
                          | None \<Rightarrow> [])\<rparr>"
    using full_name_split [OF h, THEN conjunct2, THEN conjunct1, rule_format, OF tok] .
  then have "author_of_pair ?t =
      Inr \<lparr>given = ''Jane'', family = ''Q. Public'', affiliation = []\<rparr>"
    by (simp add: single_spaced_def)
  with h ends tok show ?thesis by simp
qed

text \<open>\<^bold>\<open>C6\<close>, as stated for every full name, fails. A name that begins with a space gets
  the empty given name, its first token going to the family name; a name that ends with a
  space gets a family name that ends with a space.\<close>

theorem full_name_split_counterexample:
  "author_of_pair (author_tag '' Jane Doe'', None)
     = Inr \<lparr>given = '''', family = ''Jane Doe'', affiliation = []\<rparr> \<and>
   author_of_pair (author_tag ''Jane Doe '', None)
     = Inr \<lparr>given = ''Jane'', family = ''Doe '', affiliation = []\<rparr>"
proof -
  have "re_split_ws '' Jane Doe'' = ['''', ''Jane'', ''Doe'']"
    and "re_split_ws ''Jane Doe '' = [''Jane'', ''Doe'', '''']"
    by (simp_all add: is_space_def)
  then show ?thesis
    by (simp add: author_of_pair_def author_tag_def meta_tag_def Let_def)
qed











lemma equivalences_in_store:
  assumes "g < length st" and "x < length st"
  shows "dict_update (length st) x (st @ [st ! g]) = st @ [(st ! g) ++ (st ! x)]"
  using assms by (simp add: dict_update_def nth_append)

text \<open>\<^bold>\<open>C10.\<close> With the tables as objects in a store, \<^verbatim>\<open>parse_meta_headers\<close> leaves the
  module-level table, at address \<open>g\<close>, as it was, whatever dictionary object is passed as
  \<^verbatim>\<open>extra_equivalences\<close> (the module-level table itself included): every object that
  existed before the call is unchanged, and the overlay is written to the copy only. On a
  store whose object at \<open>g\<close> is \<open>meta_equivalences\<close>, the result is that of the function on
  values.\<close>

theorem parse_meta_headers_keeps_table:
  assumes g: "g < length st" and x: "x < length st"
  shows "snd (parse_meta_headers_store author_list_to_author g sp x st) ! g = st ! g \<and>
         take (length st) (snd (parse_meta_headers_store author_list_to_author g sp x st)) = st \<and>
         (st ! g = meta_equivalences \<longrightarrow>
            fst (parse_meta_headers_store author_list_to_author g sp x st)
              = parse_meta_headers author_list_to_author sp (st ! x))"
proof -
  have run: "parse_meta_headers_store author_list_to_author g sp x st =
      (headers_from author_list_to_author ((st ! g) ++ (st ! x)) sp,
       st @ [(st ! g) ++ (st ! x)])"
    by (simp add: parse_meta_headers_store_def copy_copy_def equivalences_in_store [OF g x])
  show ?thesis
    using g by (simp add: run nth_append parse_meta_headers_def)
qed

text \<open>A store with the module-level table and one extra table; the second call passes the
  module-level table itself as the argument.\<close>

theorem parse_meta_headers_keeps_table_witness:
  "(0::nat) < length store_two_tables \<and> (1::nat) < length store_two_tables \<and>
   snd (parse_meta_headers_store constant_formatter 0 soup_override 1 store_two_tables) ! 0
     = meta_equivalences \<and>
   snd (parse_meta_headers_store constant_formatter 0 soup_override 0 store_two_tables) ! 0
     = meta_equivalences \<and>
   fst (parse_meta_headers_store constant_formatter 0 soup_override 1 store_two_tables)
     = parse_meta_headers constant_formatter soup_override extra_override"
proof -
  have g: "(0::nat) < length store_two_tables" and x: "(1::nat) < length store_two_tables"
    by (simp_all add: store_two_tables_def)
  have t: "store_two_tables ! 0 = meta_equivalences" "store_two_tables ! 1 = extra_override"
    by (simp_all add: store_two_tables_def)
  from parse_meta_headers_keeps_table [OF g x, of constant_formatter soup_override]
       parse_meta_headers_keeps_table [OF g g, of constant_formatter soup_override]
  show ?thesis using g x t by simp
qed
lemma download_bibtex_frame:
  "download_bibtex h s = (r, s') \<Longrightarrow>
   ctx s' = ctx s \<and> written s' = written s \<and>
   expected_document_extension s' = expected_document_extension s \<and>
   document_data s' = document_data s"
  by (auto simp: download_bibtex_def Let_def split: sum.splits if_splits)

lemma get_bibtex_data_frame:
  "get_bibtex_data h s = (r, s') \<Longrightarrow>
   ctx s' = ctx s \<and> written s' = written s \<and>
   expected_document_extension s' = expected_document_extension s \<and>
   document_data s' = document_data s"
  by (auto simp: get_bibtex_data_def split: sum.splits if_splits prod.splits
      dest: download_bibtex_frame)

lemma download_document_frame:
  "download_document h s = (r, s') \<Longrightarrow>
   ctx s' = ctx s \<and> written s' = written s \<and>
   expected_document_extension s' = expected_document_extension s \<and>
   bibtex_data s' = bibtex_data s"
  by (auto simp: download_document_def split: sum.splits if_splits)

lemma get_document_data_frame:
  "get_document_data h s = (r, s') \<Longrightarrow>
   ctx s' = ctx s \<and> written s' = written s \<and>
   expected_document_extension s' = expected_document_extension s \<and>
   bibtex_data s' = bibtex_data s"
  by (auto simp: get_document_data_def split: sum.splits if_splits prod.splits
      dest: download_document_frame)

lemma check_document_format_frame:
  "check_document_format h s = (r, s') \<Longrightarrow>
   ctx s' = ctx s \<and> written s' = written s \<and>
   expected_document_extension s' = expected_document_extension s \<and>
   bibtex_data s' = bibtex_data s"
  by (auto simp: check_document_format_def Let_def
      split: expected_extension.splits sum.splits prod.splits option.splits
      dest: get_document_data_frame)

lemma document_stage_data:
  "document_stage h s = (r, s') \<Longrightarrow> data (ctx s') = data (ctx s)"
  by (auto simp: document_stage_def Let_def
      split: sum.splits prod.splits if_splits
      dest!: download_document_frame get_document_data_frame check_document_format_frame)

text \<open>\<^bold>\<open>C3.\<close> If \<^verbatim>\<open>get_data\<close>, \<^verbatim>\<open>get_bibtex_url\<close> and \<^verbatim>\<open>get_document_url\<close> raise
  \<^verbatim>\<open>NotImplementedError\<close> and \<^verbatim>\<open>get_doi\<close> returns \<open>v\<close>, then \<^verbatim>\<open>fetch\<close> on an empty
  context returns normally, the context's data is exactly \<^verbatim>\<open>{"doi": v}\<close> and its files
  list is empty; nothing else of the state changes.\<close>

theorem fetch_only_doi:
  assumes "get_data h = Inl NotImplementedError"
    and "get_bibtex_url h = Inl NotImplementedError"
    and "get_document_url h = Inl NotImplementedError"
    and "get_doi h = Inr v"
    and "data (ctx s) = Map.empty"
    and "files (ctx s) = []"
  shows "fetch h s = (Inr (), s\<lparr>ctx := \<lparr>data = [''doi'' \<mapsto> v], files = []\<rparr>\<rparr>) \<and>
         data (ctx (snd (fetch h s))) = [''doi'' \<mapsto> v] \<and>
         files (ctx (snd (fetch h s))) = []"
proof -
  have "data_stage h s = (Inr (), s)"
    using assms(1) by (simp add: data_stage_def)
  moreover have "bibtex_stage h s = (Inr (), s)"
    using assms(2) by (simp add: bibtex_stage_def download_bibtex_def)
  moreover have "doi_stage h s = (Inr (), s\<lparr>ctx := \<lparr>data = [''doi'' \<mapsto> v], files = []\<rparr>\<rparr>)"
    using assms(4,5,6) by (simp add: doi_stage_def)
  moreover have "document_stage h s2 = (Inr (), s2)" for s2
    using assms(3) by (simp add: document_stage_def download_document_def)
  ultimately show ?thesis by (simp add: fetch_def)
qed

text \<open>The downloader that implements \<^verbatim>\<open>get_doi\<close> only.\<close>

theorem fetch_only_doi_witness:
  "fetch doi_only_hooks (new_downloader NoExtension) =
     (Inr (), (new_downloader NoExtension)
                \<lparr>ctx := \<lparr>data = [''doi'' \<mapsto> PStr ''10.1000/182''], files = []\<rparr>\<rparr>)"
proof -
  have "get_data doi_only_hooks = Inl NotImplementedError"
    and "get_bibtex_url doi_only_hooks = Inl NotImplementedError"
    and "get_document_url doi_only_hooks = Inl NotImplementedError"
    and "get_doi doi_only_hooks = Inr (PStr ''10.1000/182'')"
    and "data (ctx (new_downloader NoExtension)) = Map.empty"
    and "files (ctx (new_downloader NoExtension)) = []"
    by (simp_all add: doi_only_hooks_def new_downloader_def)
  from fetch_only_doi [OF this] show ?thesis by simp
qed
lemma ctx_data_update_frame:
  "requests (ctx_data_update d s) = requests s \<and>
   bibtex_data (ctx_data_update d s) = bibtex_data s \<and>
   data (ctx (ctx_data_update d s)) = data (ctx s) ++ d"
  by (simp add: ctx_data_update_def)

lemma doi_stage_sets:
  "get_doi h = Inr v \<Longrightarrow> doi_stage h s = (r, s') \<Longrightarrow> data (ctx s') ''doi'' = Some v"
  by (auto simp: doi_stage_def)

lemma doi_stage_other:
  "doi_stage h s = (Inr u, s') \<Longrightarrow> k \<noteq> ''doi'' \<or> get_doi h = Inl NotImplementedError \<Longrightarrow>
   data (ctx s') k = data (ctx s) k"
  by (auto simp: doi_stage_def split: sum.splits if_splits)

lemma fetch_returns:
  "fetch h s = (Inr u, s') \<Longrightarrow>
   \<exists>s1 s2 s3. data_stage h s = (Inr (), s1) \<and> bibtex_stage h s1 = (Inr (), s2) \<and>
              doi_stage h s2 = (Inr (), s3) \<and> document_stage h s3 = (Inr u, s')"
  by (auto simp: fetch_def split: sum.splits prod.splits)

lemma bibtex_stage_merges:
  assumes "download_bibtex h s = (Inr r, sa)"
    and "get_bibtex_data h sa = (Inr (Some raw), sb)"
    and "raw \<noteq> []"
    and "bibtex_to_dict h raw = Inr (b # bs)"
  shows "bibtex_stage h s = (Inr (), ctx_data_update b sb)"
  using assms by (simp add: bibtex_stage_def truthy_def)

text \<open>\<^bold>\<open>C1.\<close> When \<^verbatim>\<open>fetch\<close> returns: if \<^verbatim>\<open>get_doi\<close> is implemented and returns \<open>v\<close>, the
  context's data holds \<open>v\<close> under \<^verbatim>\<open>doi\<close>, whatever the earlier stages stored there; and
  for a field \<open>k\<close> that both the dictionary \<open>d\<close> returned by \<^verbatim>\<open>get_data\<close> and the first
  entry \<open>b\<close> parsed by the bibtex stage set, the data holds the value of \<open>b\<close>, the key
  \<^verbatim>\<open>doi\<close> excepted when \<^verbatim>\<open>get_doi\<close> is implemented, where the first part applies.\<close>

theorem fetch_merge_precedence:
  assumes ret: "fetch h s = (Inr (), s')"
  shows "(\<forall>v. get_doi h = Inr v \<longrightarrow> data (ctx s') ''doi'' = Some v) \<and>
         (\<forall>d k x r sa raw sb b bs y.
            get_data h = Inr (Dict d) \<and> d k = Some x \<and>
            download_bibtex h (ctx_data_update d s) = (Inr r, sa) \<and>
            get_bibtex_data h sa = (Inr (Some raw), sb) \<and> raw \<noteq> [] \<and>
            bibtex_to_dict h raw = Inr (b # bs) \<and> b k = Some y \<and>
            (k = ''doi'' \<longrightarrow> get_doi h = Inl NotImplementedError)
            \<longrightarrow> data (ctx s') k = Some y)"
proof (intro conjI allI impI)
  from fetch_returns [OF ret]
  obtain s1 s2 s3 where st1: "data_stage h s = (Inr (), s1)"
    and st2: "bibtex_stage h s1 = (Inr (), s2)"
    and st3: "doi_stage h s2 = (Inr (), s3)"
    and st4: "document_stage h s3 = (Inr (), s')"
    by blast
  show "data (ctx s') ''doi'' = Some v" if "get_doi h = Inr v" for v
    using doi_stage_sets [OF that st3] document_stage_data [OF st4] by simp
  show "data (ctx s') k = Some y"
    if hyp: "get_data h = Inr (Dict d) \<and> d k = Some x \<and>
            download_bibtex h (ctx_data_update d s) = (Inr r, sa) \<and>
            get_bibtex_data h sa = (Inr (Some raw), sb) \<and> raw \<noteq> [] \<and>
            bibtex_to_dict h raw = Inr (b # bs) \<and> b k = Some y \<and>
            (k = ''doi'' \<longrightarrow> get_doi h = Inl NotImplementedError)"
    for d k x r sa raw sb b bs y
  proof -
    have s1: "s1 = ctx_data_update d s"
      using st1 hyp by (simp add: data_stage_def)
    have "bibtex_stage h s1 = (Inr (), ctx_data_update b sb)"
      using hyp bibtex_stage_merges [of h s1 r sa raw sb b bs] by (simp add: s1)
    with st2 have s2: "s2 = ctx_data_update b sb" by simp
    have "data (ctx s2) k = Some y"
      using hyp by (simp add: s2 ctx_data_update_frame)
    moreover have "data (ctx s3) k = data (ctx s2) k"
      using doi_stage_other [OF st3, of k] hyp by blast
    ultimately show ?thesis
      using document_stage_data [OF st4] by simp
  qed
qed

text \<open>\<^bold>\<open>C4.\<close> In the document stage, when the download succeeds, the data is non-empty and
  \<^verbatim>\<open>check_document_format\<close> returns \<^verbatim>\<open>False\<close>, the stage returns normally, appends no
  path to the context's files, writes no file, and leaves the context's data as it was.\<close>

theorem document_stage_format_failure:
  assumes "download_document h s = (Inr r, s1)"
    and "get_document_data h s1 = (Inr doc_rawdata, s2)"
    and "truthy doc_rawdata"
    and "check_document_format h s2 = (Inr False, s3)"
  shows "document_stage h s = (Inr (), s3) \<and>
         files (ctx s3) = files (ctx s) \<and>
         written s3 = written s \<and>
         data (ctx s3) = data (ctx s)"
proof -
  have "document_stage h s = (Inr (), s3)"
    using assms by (simp add: document_stage_def)
  moreover have "ctx s3 = ctx s \<and> written s3 = written s"
    using download_document_frame [OF assms(1)] get_document_data_frame [OF assms(2)]
      check_document_format_frame [OF assms(4)]
    by simp
  ultimately show ?thesis by simp
qed

text \<open>A cache that holds a non-empty value is returned as it is, with no request.\<close>

lemma get_bibtex_data_cached:
  "truthy (bibtex_data s) \<Longrightarrow> get_bibtex_data h s = (Inr (bibtex_data s), s)"
  by (simp add: get_bibtex_data_def)

lemma get_document_data_cached:
  "truthy (document_data s) \<Longrightarrow> get_document_data h s = (Inr (document_data s), s)"
  by (simp add: get_document_data_def)

text \<open>The two configurations on which \<^verbatim>\<open>check_document_format\<close> does what is expected of it:
  nothing configured, and a single tag with the document in the cache.\<close>

lemma check_document_format_no_extension:
  "expected_document_extension s = NoExtension \<Longrightarrow> check_document_format h s = (Inr True, s)"
  by (simp add: check_document_format_def)

lemma check_document_format_one_extension:
  "expected_document_extension s = OneExtension x \<Longrightarrow> truthy (document_data s) \<Longrightarrow>
   check_document_format h s = (Inr (filetype_guess h (document_data s) = Some x), s)"
  by (auto simp: check_document_format_def get_document_data_cached split: option.splits)
text \<open>The full downloader: \<^verbatim>\<open>title\<close> is set by both stages and ends as the bibtex value;
  \<^verbatim>\<open>doi\<close> is set by the bibtex stage and ends as the value of \<^verbatim>\<open>get_doi\<close>.\<close>

theorem fetch_merge_precedence_witness:
  "fetch site_hooks (new_downloader (OneExtension ''pdf'')) = (Inr (), site_after_fetch) \<and>
   get_data site_hooks = Inr (Dict site_data) \<and>
   site_data ''title'' = Some (PStr ''Draft'') \<and>
   site_entry ''title'' = Some (PStr ''Final'') \<and>
   data (ctx site_after_fetch) ''title'' = Some (PStr ''Final'') \<and>
   get_doi site_hooks = Inr (PStr ''10.1000/182'') \<and>
   data (ctx site_after_fetch) ''doi'' = Some (PStr ''10.1000/182'')"
proof -
  let ?s = "new_downloader (OneExtension ''pdf'')"
  have st1: "data_stage site_hooks ?s = (Inr (), ctx_data_update site_data ?s)"
    by (simp add: data_stage_def site_hooks_def site_data_def)
  have dl: "download_bibtex site_hooks (ctx_data_update site_data ?s)
              = (Inr None, site_after_bibtex_download)"
    by (simp add: download_bibtex_def site_hooks_def truthy_def Let_def
        site_after_bibtex_download_def ctx_data_update_def new_downloader_def)
  have cached: "get_bibtex_data site_hooks site_after_bibtex_download
              = (Inr (Some ''@article{a}''), site_after_bibtex_download)"
    by (simp add: get_bibtex_data_def truthy_def site_after_bibtex_download_def)
  have parsed: "bibtex_to_dict site_hooks ''@article{a}'' = Inr (site_entry # [])"
    by (simp add: site_hooks_def site_entry_def)
  have st2: "bibtex_stage site_hooks (ctx_data_update site_data ?s)
              = (Inr (), ctx_data_update site_entry site_after_bibtex_download)"
    using bibtex_stage_merges [OF dl cached _ parsed] by simp
  have doi: "get_doi site_hooks = Inr (PStr ''10.1000/182'')"
    by (simp add: site_hooks_def)
  have st3: "doi_stage site_hooks (ctx_data_update site_entry site_after_bibtex_download)
              = (Inr (), site_after_fetch\<lparr>document_data := None, requests := [''ref.bib'']\<rparr>)"
    by (simp add: doi_stage_def doi site_after_fetch_def site_after_bibtex_download_def
        ctx_data_update_def new_downloader_def)
  have st4: "document_stage site_hooks
               (site_after_fetch\<lparr>document_data := None, requests := [''ref.bib'']\<rparr>)
              = (Inr (), site_after_fetch)"
    by (simp add: document_stage_def download_document_def get_document_data_def
        check_document_format_def truthy_def Let_def site_hooks_def site_after_fetch_def)
  have ret: "fetch site_hooks ?s = (Inr (), site_after_fetch)"
    by (simp add: fetch_def st1 st2 st3 st4)
  have hyp: "get_data site_hooks = Inr (Dict site_data) \<and>
      site_data ''title'' = Some (PStr ''Draft'') \<and>
      download_bibtex site_hooks (ctx_data_update site_data ?s)
        = (Inr None, site_after_bibtex_download) \<and>
      get_bibtex_data site_hooks site_after_bibtex_download
        = (Inr (Some ''@article{a}''), site_after_bibtex_download) \<and>
      ''@article{a}'' \<noteq> [] \<and>
      bibtex_to_dict site_hooks ''@article{a}'' = Inr (site_entry # []) \<and>
      site_entry ''title'' = Some (PStr ''Final'') \<and>
      (''title'' = ''doi'' \<longrightarrow> get_doi site_hooks = Inl NotImplementedError)"
    using dl cached parsed by (simp add: site_hooks_def site_data_def site_entry_def)
  have "data (ctx site_after_fetch) ''title'' = Some (PStr ''Final'')"
    using fetch_merge_precedence [OF ret, THEN conjunct2, rule_format, OF hyp] .
  moreover have "data (ctx site_after_fetch) ''doi'' = Some (PStr ''10.1000/182'')"
    using fetch_merge_precedence [OF ret, THEN conjunct1, rule_format, OF doi] .
  ultimately show ?thesis using ret hyp doi by simp
qed

text \<open>A downloader that expects \<^verbatim>\<open>pdf\<close> and receives a file sniffed as \<^verbatim>\<open>epub\<close>.\<close>

theorem document_stage_format_failure_witness:
  "download_document site_hooks (new_downloader (OneExtension ''pdf''))
     = (Inr None, epub_downloaded) \<and>
   check_document_format site_hooks epub_downloaded = (Inr False, epub_downloaded) \<and>
   document_stage site_hooks (new_downloader (OneExtension ''pdf'')) = (Inr (), epub_downloaded) \<and>
   files (ctx epub_downloaded) = [] \<and>
   written epub_downloaded = [] \<and>
   data (ctx epub_downloaded) = Map.empty"
proof -
  let ?s = "new_downloader (OneExtension ''pdf'')"
  have dl: "download_document site_hooks ?s = (Inr None, epub_downloaded)"
    by (simp add: download_document_def site_hooks_def truthy_def epub_downloaded_def
        new_downloader_def)
  have cached: "get_document_data site_hooks epub_downloaded
      = (Inr (Some ''PK-epub''), epub_downloaded)"
    by (simp add: get_document_data_def truthy_def epub_downloaded_def)
  have nonempty: "truthy (Some ''PK-epub'')"
    by (simp add: truthy_def)
  have check: "check_document_format site_hooks epub_downloaded = (Inr False, epub_downloaded)"
    using check_document_format_one_extension [of epub_downloaded "''pdf''" site_hooks]
    by (simp add: epub_downloaded_def new_downloader_def site_hooks_def truthy_def)
  from document_stage_format_failure [OF dl cached nonempty check] dl check
  show ?thesis by (simp add: new_downloader_def)
qed

text \<open>\<^bold>\<open>C8\<close> fails on a download that returns an empty body. \<^verbatim>\<open>download_bibtex\<close> stores
  the empty text in the cache after one request; the following \<^verbatim>\<open>get_bibtex_data\<close> finds
  the cache falsy and issues a second request. \<^verbatim>\<open>get_document_data\<close> does the same.\<close>

theorem empty_download_is_repeated:
  "download_bibtex empty_body_hooks (new_downloader NoExtension)
     = (Inr None, after_empty_bibtex 1) \<and>
   get_bibtex_data empty_body_hooks (after_empty_bibtex 1)
     = (Inr (Some []), after_empty_bibtex 2) \<and>
   download_document empty_body_hooks (new_downloader NoExtension)
     = (Inr None, after_empty_document 1) \<and>
   get_document_data empty_body_hooks (after_empty_document 1)
     = (Inr (Some []), after_empty_document 2)"
  by (simp add: download_bibtex_def get_bibtex_data_def download_document_def
      get_document_data_def empty_body_hooks_def truthy_def Let_def
      after_empty_bibtex_def after_empty_document_def new_downloader_def
      numeral_2_eq_2)

text \<open>\<^bold>\<open>C2\<close> fails for a list of accepted tags. With \<^verbatim>\<open>['pdf', 'epub']\<close> configured and
  a document sniffed as \<^verbatim>\<open>pdf\<close>, \<^verbatim>\<open>check_document_format\<close> raises
  \<^verbatim>\<open>UnboundLocalError\<close> instead of returning \<^verbatim>\<open>True\<close>.\<close>

theorem extension_list_is_unbound:
  "check_document_format pdf_hooks two_formats_downloader
     = (Inl UnboundLocalError, two_formats_downloader)"
  by (simp add: check_document_format_def get_document_data_def truthy_def
      pdf_hooks_def two_formats_downloader_def new_downloader_def)

end
